theory Spec2Isabelle
  imports Main
begin

section \<open>JavaScript values\<close>

text \<open>
  The reducer of \<^verbatim>\<open>hooks/use-input.js\<close> copies the \<^verbatim>\<open>value\<close> property of an action
  into either field of the state, so both fields and the payload share one type: the
  JavaScript values that occur in the program, which are strings, booleans and
  \<^verbatim>\<open>undefined\<close> (the result of reading a property an object does not have).
  Equality of this datatype is JavaScript's strict equality \<^verbatim>\<open>===\<close> on these values.
  A string is a list of code units; the model covers the code units below 256.
\<close>

datatype js_value = JSUndefined | JSBoolean bool | JSString string

text \<open>\<^verbatim>\<open>ToBoolean\<close>: \<^verbatim>\<open>undefined\<close> and the empty string are falsy.\<close>

fun truthy :: "js_value \<Rightarrow> bool" where
  "truthy JSUndefined = False"
| "truthy (JSBoolean b) = b"
| "truthy (JSString s) = (s \<noteq> [])"

text \<open>\<^verbatim>\<open>!a\<close> and \<^verbatim>\<open>a && b\<close>; the latter returns an operand, not a boolean.\<close>

definition js_not :: "js_value \<Rightarrow> js_value" where
  "js_not a = JSBoolean (\<not> truthy a)"

definition js_and :: "js_value \<Rightarrow> js_value \<Rightarrow> js_value" where
  "js_and a b = (if truthy a then b else a)"

section \<open>The reducer of \<^verbatim>\<open>use-input.js\<close>\<close>

record input_state =
  enteredValue :: js_value
  isTouched :: js_value

text \<open>
  An action object: its \<^verbatim>\<open>type\<close> and \<^verbatim>\<open>value\<close> properties, \<^const>\<open>JSUndefined\<close> where
  the object has no such property.
\<close>

record action =
  action_type :: js_value
  action_value :: js_value

definition INITIAL_INPUT_STATE :: input_state where
  "INITIAL_INPUT_STATE = \<lparr>enteredValue = JSString '''', isTouched = JSBoolean False\<rparr>"

text \<open>
  \<^verbatim>\<open>switch (action.type)\<close> compares with \<^verbatim>\<open>===\<close>, in the order of the cases;
  \<^verbatim>\<open>case "RESET_INPUT":\<close> falls through to \<^verbatim>\<open>default:\<close>.
\<close>

definition inputStateReducer :: "input_state \<Rightarrow> action \<Rightarrow> input_state" where
  "inputStateReducer state action =
     (if action_type action = JSString ''VALUE_CHANGED'' then
        \<lparr>enteredValue = action_value action, isTouched = isTouched state\<rparr>
      else if action_type action = JSString ''INPUT_BLUR'' then
        \<lparr>enteredValue = enteredValue state, isTouched = action_value action\<rparr>
      else if action_type action = JSString ''RESET_INPUT'' then
        INITIAL_INPUT_STATE
      else
        INITIAL_INPUT_STATE)"

section \<open>The hook \<^verbatim>\<open>useInput\<close>\<close>

text \<open>
  \<^verbatim>\<open>useReducer\<close> keeps the state between renders and \<^verbatim>\<open>dispatchInput(a)\<close> replaces it
  with \<^verbatim>\<open>inputStateReducer(state, a)\<close>: the state is passed explicitly, and a handler
  maps the state before the event to the state of the next render.
\<close>

definition dispatchInput :: "input_state \<Rightarrow> action \<Rightarrow> input_state" where
  "dispatchInput inputState a = inputStateReducer inputState a"

text \<open>The argument \<open>v\<close> is \<^verbatim>\<open>event.target.value\<close>, the text of the input element.\<close>

definition valueChangeHandler :: "input_state \<Rightarrow> string \<Rightarrow> input_state" where
  "valueChangeHandler inputState v =
     dispatchInput inputState
       \<lparr>action_type = JSString ''VALUE_CHANGED'', action_value = JSString v\<rparr>"

definition inputBlurHandler :: "input_state \<Rightarrow> input_state" where
  "inputBlurHandler inputState =
     dispatchInput inputState
       \<lparr>action_type = JSString ''INPUT_BLUR'', action_value = JSBoolean True\<rparr>"

definition reset :: "input_state \<Rightarrow> input_state" where
  "reset inputState =
     dispatchInput inputState
       \<lparr>action_type = JSString ''RESET_INPUT'', action_value = JSUndefined\<rparr>"

text \<open>
  The inferred states, recomputed at every render from the current state. The
  caller's \<^verbatim>\<open>validateValue\<close> is a parameter.
\<close>

definition valueIsValid :: "(js_value \<Rightarrow> js_value) \<Rightarrow> input_state \<Rightarrow> js_value" where
  "valueIsValid validateValue inputState = validateValue (enteredValue inputState)"

definition hasError :: "(js_value \<Rightarrow> js_value) \<Rightarrow> input_state \<Rightarrow> js_value" where
  "hasError validateValue inputState =
     js_and (js_not (valueIsValid validateValue inputState)) (isTouched inputState)"

text \<open>The data properties of the object \<^verbatim>\<open>useInput\<close> returns.\<close>

record input_outputs =
  out_value :: js_value
  out_isValid :: js_value
  out_hasError :: js_value

definition useInput :: "(js_value \<Rightarrow> js_value) \<Rightarrow> input_state \<Rightarrow> input_outputs" where
  "useInput validateValue inputState =
     \<lparr>out_value = enteredValue inputState,
      out_isValid = valueIsValid validateValue inputState,
      out_hasError = hasError validateValue inputState\<rparr>"

text \<open>The three operations the hook exposes, and a run of them in order.\<close>

datatype input_op = OnChange string | OnBlur | OnReset

fun perform :: "input_state \<Rightarrow> input_op \<Rightarrow> input_state" where
  "perform st (OnChange v) = valueChangeHandler st v"
| "perform st OnBlur = inputBlurHandler st"
| "perform st OnReset = reset st"

definition run_ops :: "input_state \<Rightarrow> input_op list \<Rightarrow> input_state" where
  "run_ops st ops = foldl perform st ops"

section \<open>Well-formed states\<close>

text \<open>
  The state the hook is meant to hold: a string and a boolean, as in
  \<^verbatim>\<open>INITIAL_INPUT_STATE\<close>.
\<close>

fun isString :: "js_value \<Rightarrow> bool" where
  "isString (JSString s) = True"
| "isString JSUndefined = False"
| "isString (JSBoolean b) = False"

fun isBoolean :: "js_value \<Rightarrow> bool" where
  "isBoolean (JSBoolean b) = True"
| "isBoolean JSUndefined = False"
| "isBoolean (JSString s) = False"

definition wellFormed :: "input_state \<Rightarrow> bool" where
  "wellFormed st = (isString (enteredValue st) \<and> isBoolean (isTouched st))"

section \<open>What a run of operations should leave in the state\<close>

text \<open>
  Read off the list of operations alone, without the reducer: the operations after the
  most recent reset, the strings of the change operations among them, and the last of
  those strings (the empty string if there is none).
\<close>

definition since_reset :: "input_op list \<Rightarrow> input_op list" where
  "since_reset ops = rev (takeWhile (\<lambda>e. e \<noteq> OnReset) (rev ops))"

fun changed_values :: "input_op list \<Rightarrow> string list" where
  "changed_values [] = []"
| "changed_values (OnChange v # es) = v # changed_values es"
| "changed_values (OnBlur # es) = changed_values es"
| "changed_values (OnReset # es) = changed_values es"

definition last_committed :: "input_op list \<Rightarrow> string" where
  "last_committed ops =
     (let vs = changed_values (since_reset ops) in if vs = [] then [] else last vs)"

section \<open>\<^verbatim>\<open>String.prototype.trim\<close>\<close>

text \<open>
  \<^verbatim>\<open>trim\<close> removes white space and line terminators from both ends. Among the code
  units below 256 these are TAB, LF, VT, FF, CR, SP and NBSP.
\<close>

definition isWhiteSpace :: "char \<Rightarrow> bool" where
  "isWhiteSpace c =
     (c \<in> {CHR 0x09, CHR 0x0A, CHR 0x0B, CHR 0x0C, CHR 0x0D, CHR 0x20, CHR 0xA0})"

definition trim :: "string \<Rightarrow> string" where
  "trim s = rev (dropWhile isWhiteSpace (rev (dropWhile isWhiteSpace s)))"

section \<open>The component with two \<^verbatim>\<open>useState\<close> calls and inferred validity\<close>

text \<open>
  \<^verbatim>\<open>SimpleInput\<close> before the hook was extracted: \<^verbatim>\<open>enteredName\<close> starts as the empty
  string and is set to \<^verbatim>\<open>event.target.value\<close>; \<^verbatim>\<open>enteredNameTouched\<close> starts as
  \<^verbatim>\<open>false\<close> and is set to \<^verbatim>\<open>true\<close>. Validity is computed from the name at every
  render.
\<close>

record simple_input =
  enteredName :: string
  enteredNameTouched :: bool

definition simple_input_initial :: simple_input where
  "simple_input_initial = \<lparr>enteredName = [], enteredNameTouched = False\<rparr>"

definition nameInputChangeHandler :: "simple_input \<Rightarrow> string \<Rightarrow> simple_input" where
  "nameInputChangeHandler c v = c\<lparr>enteredName := v\<rparr>"

definition nameInputBlurHandler :: "simple_input \<Rightarrow> simple_input" where
  "nameInputBlurHandler c = c\<lparr>enteredNameTouched := True\<rparr>"

definition enteredNameIsValid :: "simple_input \<Rightarrow> bool" where
  "enteredNameIsValid c = (trim (enteredName c) \<noteq> [])"

definition nameInputIsInvalid :: "simple_input \<Rightarrow> bool" where
  "nameInputIsInvalid c = (\<not> enteredNameIsValid c \<and> enteredNameTouched c)"

text \<open>The events of the text input, delivered to either version.\<close>

datatype field_event = Changed string | Blurred

fun simple_input_on :: "simple_input \<Rightarrow> field_event \<Rightarrow> simple_input" where
  "simple_input_on c (Changed v) = nameInputChangeHandler c v"
| "simple_input_on c Blurred = nameInputBlurHandler c"

fun use_input_on :: "input_state \<Rightarrow> field_event \<Rightarrow> input_state" where
  "use_input_on st (Changed v) = valueChangeHandler st v"
| "use_input_on st Blurred = inputBlurHandler st"

definition run_simple_input :: "field_event list \<Rightarrow> simple_input" where
  "run_simple_input evs = foldl simple_input_on simple_input_initial evs"

definition run_use_input :: "field_event list \<Rightarrow> input_state" where
  "run_use_input evs = foldl use_input_on INITIAL_INPUT_STATE evs"

section \<open>The handlers, state by state\<close>

lemma valueChangeHandler_eq:
  "valueChangeHandler st v = \<lparr>enteredValue = JSString v, isTouched = isTouched st\<rparr>"
  by (simp add: valueChangeHandler_def dispatchInput_def inputStateReducer_def)

lemma inputBlurHandler_eq:
  "inputBlurHandler st = \<lparr>enteredValue = enteredValue st, isTouched = JSBoolean True\<rparr>"
  by (simp add: inputBlurHandler_def dispatchInput_def inputStateReducer_def)

lemma reset_eq: "reset st = INITIAL_INPUT_STATE"
  by (simp add: reset_def dispatchInput_def inputStateReducer_def)

lemma hasError_true_iff:
  "hasError validateValue st = JSBoolean True \<longleftrightarrow>
     isTouched st = JSBoolean True \<and> \<not> truthy (validateValue (enteredValue st))"
  by (simp add: hasError_def valueIsValid_def js_and_def js_not_def)

lemma run_ops_snoc: "run_ops st (ops @ [e]) = perform (run_ops st ops) e"
  by (simp add: run_ops_def)

lemma since_reset_snoc:
  "since_reset (ops @ [e]) = (if e = OnReset then [] else since_reset ops @ [e])"
  by (simp add: since_reset_def)

lemma changed_values_append:
  "changed_values (xs @ ys) = changed_values xs @ changed_values ys"
  by (induction xs rule: changed_values.induct) simp_all

lemma last_committed_snoc:
  "last_committed (ops @ [e]) =
     (case e of OnChange v \<Rightarrow> v | OnBlur \<Rightarrow> last_committed ops | OnReset \<Rightarrow> [])"
  by (cases e)
    (simp_all add: last_committed_def since_reset_snoc changed_values_append Let_def)

lemma run_value:
  "enteredValue (run_ops INITIAL_INPUT_STATE ops) = JSString (last_committed ops)"
proof (induction ops rule: rev_induct)
  case Nil
  show ?case
    by (simp add: run_ops_def INITIAL_INPUT_STATE_def last_committed_def since_reset_def)
next
  case (snoc e ops)
  then show ?case
    by (cases e)
      (simp_all add: run_ops_snoc last_committed_snoc valueChangeHandler_eq
        inputBlurHandler_eq reset_eq INITIAL_INPUT_STATE_def)
qed

lemma run_touched:
  "isTouched (run_ops INITIAL_INPUT_STATE ops) = JSBoolean (OnBlur \<in> set (since_reset ops))"
proof (induction ops rule: rev_induct)
  case Nil
  show ?case
    by (simp add: run_ops_def INITIAL_INPUT_STATE_def since_reset_def)
next
  case (snoc e ops)
  then show ?case
    by (cases e)
      (simp_all add: run_ops_snoc since_reset_snoc valueChangeHandler_eq
        inputBlurHandler_eq reset_eq INITIAL_INPUT_STATE_def)
qed

lemma touched_stays:
  "e \<noteq> OnReset \<Longrightarrow> isTouched st = JSBoolean True \<Longrightarrow> isTouched (perform st e) = JSBoolean True"
  by (cases e) (simp_all add: valueChangeHandler_eq inputBlurHandler_eq)

lemma wellFormed_initial: "wellFormed INITIAL_INPUT_STATE"
  by (simp add: wellFormed_def INITIAL_INPUT_STATE_def)

lemma wellFormed_perform: "wellFormed st \<Longrightarrow> wellFormed (perform st e)"
  by (cases e)
    (simp_all add: wellFormed_def valueChangeHandler_eq inputBlurHandler_eq reset_eq
      INITIAL_INPUT_STATE_def)

lemma wellFormed_run_ops: "wellFormed st \<Longrightarrow> wellFormed (run_ops st ops)"
proof (induction ops rule: rev_induct)
  case Nil
  then show ?case by (simp add: run_ops_def)
next
  case (snoc e ops)
  then show ?case by (simp add: run_ops_snoc wellFormed_perform)
qed

lemma reducer_branches:
  "inputStateReducer st a = \<lparr>enteredValue = action_value a, isTouched = isTouched st\<rparr>
   \<or> inputStateReducer st a = \<lparr>enteredValue = enteredValue st, isTouched = action_value a\<rparr>
   \<or> inputStateReducer st a = INITIAL_INPUT_STATE"
  by (simp add: inputStateReducer_def)

lemma trim_blank: "trim ''  '' = []"
  by (simp add: trim_def isWhiteSpace_def)

lemma trim_Sam: "trim ''Sam'' = ''Sam''"
  by (simp add: trim_def isWhiteSpace_def)

lemma versions_step:
  assumes "enteredValue st = JSString (enteredName c)"
    and "isTouched st = JSBoolean (enteredNameTouched c)"
  shows "enteredValue (use_input_on st e) = JSString (enteredName (simple_input_on c e))
    \<and> isTouched (use_input_on st e) = JSBoolean (enteredNameTouched (simple_input_on c e))"
  using assms
  by (cases e)
    (simp_all add: valueChangeHandler_eq inputBlurHandler_eq nameInputChangeHandler_def
      nameInputBlurHandler_def)

lemma versions_run:
  "enteredValue (run_use_input evs) = JSString (enteredName (run_simple_input evs))
   \<and> isTouched (run_use_input evs) = JSBoolean (enteredNameTouched (run_simple_input evs))"
proof (induction evs rule: rev_induct)
  case Nil
  show ?case
    by (simp add: run_use_input_def run_simple_input_def INITIAL_INPUT_STATE_def
        simple_input_initial_def)
next
  case (snoc e evs)
  then show ?case
    using versions_step [of "run_use_input evs" "run_simple_input evs" e]
    by (simp add: run_use_input_def run_simple_input_def)
qed

section \<open>Derived outputs\<close>

text \<open>
  Claim C1. The predicate returns a boolean, \<open>p\<close>. In every state, the \<^verbatim>\<open>hasError\<close>
  output is \<^verbatim>\<open>true\<close> exactly when the touched flag is \<^verbatim>\<open>true\<close> and the predicate is
  false on the current value, and the \<^verbatim>\<open>isValid\<close> output is the predicate applied to
  the current value.
\<close>

theorem hasError_iff_touched_and_invalid:
  "(out_hasError (useInput (\<lambda>v. JSBoolean (p v)) st) = JSBoolean True \<longleftrightarrow>
      isTouched st = JSBoolean True \<and> \<not> p (enteredValue st))
   \<and> out_isValid (useInput (\<lambda>v. JSBoolean (p v)) st) = JSBoolean (p (enteredValue st))
   \<and> out_isValid (useInput validateValue st) = validateValue (out_value (useInput validateValue st))"
  by (simp add: useInput_def hasError_true_iff valueIsValid_def)

section \<open>The change operation\<close>

text \<open>
  Claim C2. After the change handler has run with the string \<open>s\<close>, from any state,
  the \<^verbatim>\<open>value\<close> output is \<open>s\<close>.
\<close>

theorem value_after_change:
  "out_value (useInput validateValue (valueChangeHandler st s)) = JSString s"
  by (simp add: useInput_def valueChangeHandler_eq)

text \<open>
  Claim C3. The change handler replaces the value by \<open>s\<close> and keeps the touched
  flag; it is defined on every state and every string, and the reducer branch it takes
  has no failing path.
\<close>

theorem change_replaces_value_keeps_touched:
  "enteredValue (valueChangeHandler st s) = JSString s
   \<and> isTouched (valueChangeHandler st s) = isTouched st
   \<and> valueChangeHandler st s =
       inputStateReducer st \<lparr>action_type = JSString ''VALUE_CHANGED'', action_value = JSString s\<rparr>"
  by (simp add: valueChangeHandler_eq inputStateReducer_def)

section \<open>The blur operation\<close>

text \<open>
  Claim C4. The blur handler sets the touched flag to \<^verbatim>\<open>true\<close> and keeps the value,
  from every state.
\<close>

theorem blur_sets_touched_keeps_value:
  "isTouched (inputBlurHandler st) = JSBoolean True
   \<and> enteredValue (inputBlurHandler st) = enteredValue st"
  by (simp add: inputBlurHandler_eq)

section \<open>The reset operation\<close>

text \<open>
  Claim C5. From every state, reset gives the initial state, whose value is the empty
  string and whose touched flag is \<^verbatim>\<open>false\<close>; so reset after any run of operations
  is the same as reset alone, and resetting twice is resetting once.
\<close>

theorem reset_gives_initial_state:
  "reset st = \<lparr>enteredValue = JSString '''', isTouched = JSBoolean False\<rparr>
   \<and> reset st = INITIAL_INPUT_STATE
   \<and> reset (run_ops st ops) = reset st
   \<and> run_ops st (ops @ [OnReset]) = reset st
   \<and> reset (reset st) = reset st"
  by (simp add: reset_eq run_ops_def INITIAL_INPUT_STATE_def)

section \<open>Reachable states\<close>

text \<open>
  Claim C6. After any run of the three operations from the initial state, the value
  is the string of the last change operation since the most recent reset, or the empty
  string if there is none, and the touched flag tells whether a blur happened since
  the most recent reset. An operation other than reset keeps a touched flag that is
  \<^verbatim>\<open>true\<close>; reset makes it \<^verbatim>\<open>false\<close>.
\<close>

theorem reachable_value_and_touched:
  "enteredValue (run_ops INITIAL_INPUT_STATE ops) = JSString (last_committed ops)
   \<and> isTouched (run_ops INITIAL_INPUT_STATE ops) = JSBoolean (OnBlur \<in> set (since_reset ops))
   \<and> (e \<noteq> OnReset \<longrightarrow> isTouched (run_ops INITIAL_INPUT_STATE ops) = JSBoolean True \<longrightarrow>
        isTouched (run_ops INITIAL_INPUT_STATE (ops @ [e])) = JSBoolean True)
   \<and> isTouched (run_ops INITIAL_INPUT_STATE (ops @ [OnReset])) = JSBoolean False"
proof -
  have "isTouched (run_ops INITIAL_INPUT_STATE (ops @ [OnReset])) = JSBoolean False"
    by (simp add: run_ops_snoc reset_eq INITIAL_INPUT_STATE_def)
  then show ?thesis
    using run_value [of ops] run_touched [of ops]
      touched_stays [of e "run_ops INITIAL_INPUT_STATE ops"]
    by (simp only: run_ops_snoc) blast
qed

theorem reachable_value_and_touched_witness:
  "OnChange ''c'' \<noteq> OnReset
   \<and> isTouched (run_ops INITIAL_INPUT_STATE
        [OnChange ''a'', OnBlur, OnReset, OnChange ''b'', OnBlur]) = JSBoolean True
   \<and> isTouched (run_ops INITIAL_INPUT_STATE
        ([OnChange ''a'', OnBlur, OnReset, OnChange ''b'', OnBlur] @ [OnChange ''c''])) = JSBoolean True
   \<and> enteredValue (run_ops INITIAL_INPUT_STATE
        [OnChange ''a'', OnBlur, OnReset, OnChange ''b'', OnBlur]) = JSString ''b''"
  using reachable_value_and_touched
    [of "[OnChange ''a'', OnBlur, OnReset, OnChange ''b'', OnBlur]" "OnChange ''c''"]
  by (simp add: since_reset_def last_committed_def)

section \<open>The predicate of the name field\<close>

text \<open>
  Claim C7. Let the caller's predicate be non-empty after trim: on a string \<open>s\<close> it
  returns whether \<^verbatim>\<open>s.trim() !== ""\<close>. After a change to two spaces the \<^verbatim>\<open>isValid\<close>
  output is \<^verbatim>\<open>false\<close>, and after a change to \<^verbatim>\<open>Sam\<close> it is \<^verbatim>\<open>true\<close>; the inferred
  \<^verbatim>\<open>enteredNameIsValid\<close> of the component gives the same two answers.
\<close>

theorem isValid_blank_and_Sam:
  assumes "\<forall>s. validateValue (JSString s) = JSBoolean (trim s \<noteq> [])"
  shows "out_isValid (useInput validateValue (valueChangeHandler st ''  '')) = JSBoolean False
    \<and> out_isValid (useInput validateValue (valueChangeHandler st ''Sam'')) = JSBoolean True
    \<and> enteredNameIsValid (nameInputChangeHandler c ''  '') = False
    \<and> enteredNameIsValid (nameInputChangeHandler c ''Sam'') = True"
  using assms
  by (simp add: useInput_def valueIsValid_def valueChangeHandler_eq enteredNameIsValid_def
      nameInputChangeHandler_def trim_blank trim_Sam)

theorem isValid_blank_and_Sam_witness:
  "(\<forall>s. (\<lambda>v. JSBoolean (case v of JSString x \<Rightarrow> trim x \<noteq> [] | _ \<Rightarrow> False)) (JSString s)
        = JSBoolean (trim s \<noteq> []))
   \<and> out_isValid (useInput (\<lambda>v. JSBoolean (case v of JSString x \<Rightarrow> trim x \<noteq> [] | _ \<Rightarrow> False))
        (valueChangeHandler INITIAL_INPUT_STATE ''  '')) = JSBoolean False
   \<and> out_isValid (useInput (\<lambda>v. JSBoolean (case v of JSString x \<Rightarrow> trim x \<noteq> [] | _ \<Rightarrow> False))
        (valueChangeHandler INITIAL_INPUT_STATE ''Sam'')) = JSBoolean True"
proof -
  have h: "\<forall>s. (\<lambda>v. JSBoolean (case v of JSString x \<Rightarrow> trim x \<noteq> [] | _ \<Rightarrow> False)) (JSString s)
        = JSBoolean (trim s \<noteq> [])"
    by simp
  show ?thesis
    using h isValid_blank_and_Sam [OF h, of INITIAL_INPUT_STATE simple_input_initial]
    by blast
qed

section \<open>Totality\<close>

text \<open>
  Claim C8. The reducer is defined on every state and every action and returns one of
  three objects, each with both fields; none of its branches fails. The initial state is
  well formed (a string and a boolean), and each of the three operations, and so every
  run of them, takes a well-formed state to a well-formed state.
\<close>

theorem operations_total_well_formed:
  "wellFormed INITIAL_INPUT_STATE
   \<and> (wellFormed st \<longrightarrow> wellFormed (perform st e) \<and> wellFormed (run_ops st ops))
   \<and> (inputStateReducer st a = \<lparr>enteredValue = action_value a, isTouched = isTouched st\<rparr>
      \<or> inputStateReducer st a = \<lparr>enteredValue = enteredValue st, isTouched = action_value a\<rparr>
      \<or> inputStateReducer st a = INITIAL_INPUT_STATE)"
  using wellFormed_initial wellFormed_perform [of st e] wellFormed_run_ops [of st ops]
    reducer_branches [of st a]
  by blast

theorem operations_total_well_formed_witness:
  "wellFormed \<lparr>enteredValue = JSString ''ab'', isTouched = JSBoolean True\<rparr>
   \<and> wellFormed (perform \<lparr>enteredValue = JSString ''ab'', isTouched = JSBoolean True\<rparr> OnBlur)
   \<and> wellFormed (run_ops \<lparr>enteredValue = JSString ''ab'', isTouched = JSBoolean True\<rparr>
        [OnChange ''x'', OnReset])"
proof -
  have h: "wellFormed \<lparr>enteredValue = JSString ''ab'', isTouched = JSBoolean True\<rparr>"
    by (simp add: wellFormed_def)
  show ?thesis
    using h operations_total_well_formed
      [of "\<lparr>enteredValue = JSString ''ab'', isTouched = JSBoolean True\<rparr>" OnBlur
        "[OnChange ''x'', OnReset]"]
    by blast
qed

section \<open>The two versions of the component\<close>

text \<open>
  Claim C9. Start the hook and the component with two \<^verbatim>\<open>useState\<close> calls in their
  initial states and give both the same change and blur events. Then the value and the
  touched flag of the reducer state are the name and the touched flag of the component,
  and, with the predicate non-empty after trim, \<^verbatim>\<open>isValid\<close> is \<^verbatim>\<open>enteredNameIsValid\<close> and
  \<^verbatim>\<open>hasError\<close> is \<^verbatim>\<open>nameInputIsInvalid\<close>.
\<close>

theorem use_input_refines_simple_input:
  assumes "\<forall>s. validateValue (JSString s) = JSBoolean (trim s \<noteq> [])"
  shows "enteredValue (run_use_input evs) = JSString (enteredName (run_simple_input evs))
    \<and> isTouched (run_use_input evs) = JSBoolean (enteredNameTouched (run_simple_input evs))
    \<and> out_value (useInput validateValue (run_use_input evs))
        = JSString (enteredName (run_simple_input evs))
    \<and> out_isValid (useInput validateValue (run_use_input evs))
        = JSBoolean (enteredNameIsValid (run_simple_input evs))
    \<and> out_hasError (useInput validateValue (run_use_input evs))
        = JSBoolean (nameInputIsInvalid (run_simple_input evs))"
  using assms versions_run [of evs]
  by (simp add: useInput_def valueIsValid_def hasError_def js_and_def js_not_def
      enteredNameIsValid_def nameInputIsInvalid_def)

theorem use_input_refines_simple_input_witness:
  "(\<forall>s. (\<lambda>v. JSBoolean (case v of JSString x \<Rightarrow> trim x \<noteq> [] | _ \<Rightarrow> False)) (JSString s)
        = JSBoolean (trim s \<noteq> []))
   \<and> enteredValue (run_use_input [Changed '' '', Blurred, Changed ''Sam''])
        = JSString (enteredName (run_simple_input [Changed '' '', Blurred, Changed ''Sam'']))
   \<and> out_hasError (useInput (\<lambda>v. JSBoolean (case v of JSString x \<Rightarrow> trim x \<noteq> [] | _ \<Rightarrow> False))
        (run_use_input [Changed '' '', Blurred, Changed ''Sam'']))
        = JSBoolean (nameInputIsInvalid (run_simple_input [Changed '' '', Blurred, Changed ''Sam'']))"
proof -
  have h: "\<forall>s. (\<lambda>v. JSBoolean (case v of JSString x \<Rightarrow> trim x \<noteq> [] | _ \<Rightarrow> False)) (JSString s)
        = JSBoolean (trim s \<noteq> [])"
    by simp
  show ?thesis
    using h use_input_refines_simple_input
      [OF h, of "[Changed '' '', Blurred, Changed ''Sam'']"]
    by blast
qed

section \<open>Actions of any other type\<close>

text \<open>
  Claim C10. An action whose type is neither \<^verbatim>\<open>VALUE_CHANGED\<close> nor \<^verbatim>\<open>INPUT_BLUR\<close>,
  whatever else it is, takes every state to the initial state, whose value is the empty
  string and whose touched flag is \<^verbatim>\<open>false\<close>: the reducer does what reset does, keeps
  nothing of the state it was given, and has no failing path.
\<close>

theorem other_action_resets:
  assumes "action_type a \<noteq> JSString ''VALUE_CHANGED''"
    and "action_type a \<noteq> JSString ''INPUT_BLUR''"
  shows "inputStateReducer st a = \<lparr>enteredValue = JSString [], isTouched = JSBoolean False\<rparr>
    \<and> inputStateReducer st a = INITIAL_INPUT_STATE
    \<and> inputStateReducer st a = reset st"
  using assms
  by (simp add: inputStateReducer_def reset_eq INITIAL_INPUT_STATE_def)

theorem other_action_resets_witness:
  "JSString ''SUBMIT'' \<noteq> JSString ''VALUE_CHANGED''
   \<and> JSString ''SUBMIT'' \<noteq> JSString ''INPUT_BLUR''
   \<and> inputStateReducer \<lparr>enteredValue = JSString ''abc'', isTouched = JSBoolean True\<rparr>
        \<lparr>action_type = JSString ''SUBMIT'', action_value = JSString ''x''\<rparr>
      = \<lparr>enteredValue = JSString [], isTouched = JSBoolean False\<rparr>"
proof -
  have h1: "action_type \<lparr>action_type = JSString ''SUBMIT'', action_value = JSString ''x''\<rparr>
      \<noteq> JSString ''VALUE_CHANGED''"
    by simp
  have h2: "action_type \<lparr>action_type = JSString ''SUBMIT'', action_value = JSString ''x''\<rparr>
      \<noteq> JSString ''INPUT_BLUR''"
    by simp
  show ?thesis
    using h1 h2 other_action_resets [OF h1 h2,
        of "\<lparr>enteredValue = JSString ''abc'', isTouched = JSBoolean True\<rparr>"]
    by simp
qed

end
